theory Spec2Isabelle
  imports Complex_Main
begin

section \<open>Numbers, errors and tables\<close>

text \<open>
  The engine computes on Python and numpy floats, which are IEEE 754 doubles. A float is
  modelled as the real number it stands for, an infinity or \<open>nan\<close>. Rounding is not
  modelled: a result inside the range of the format is taken as exact. Leaving the range is
  modelled, since there the code raises or produces \<open>inf\<close> and \<open>nan\<close>:
  \<^item> a result whose magnitude reaches \<open>float_ovf\<close> (the midpoint between the largest
    double and \<open>2^1024\<close>) overflows: to an infinity in numpy and in Python's \<open>+\<close>,
    \<open>-\<close>, \<open>*\<close> and \<open>/\<close>, to \<open>OverflowError\<close> in Python's \<open>**\<close>;
  \<^item> a power whose magnitude does not exceed \<open>float_unf\<close> (half the smallest positive
    double) underflows to zero; powers are the divisors of the valuation, so there a zero
    decides between a value, \<open>nan\<close> and \<open>ZeroDivisionError\<close>. A product or quotient
    that small is kept as it is, like any other rounding;
  \<^item> a Python float division by zero raises \<open>ZeroDivisionError\<close>, a numpy array
    division by zero returns \<open>inf\<close>, \<open>-inf\<close> or \<open>nan\<close> and goes on.
  The sign of a zero is not kept (\<open>-0.0 == 0.0\<close>), except in the scale handed to the
  random generator, which tests the sign bit. Function parameters are finite floats and are
  typed as reals; \<open>1 + x\<close> and \<open>1 - x\<close> of such a parameter cannot overflow and are
  taken as reals too.
\<close>

datatype error =
    ValueError string
  | IndexError
  | ZeroDivisionError
  | OverflowError
  | KeyError string

text \<open>The \<open>ValueError\<close>s of the valuation module, told apart by their message.\<close>

definition MissingColumnError :: error where
  "MissingColumnError = ValueError ''forecast_df must contain FCFF column''"

definition InvalidDiscountingError :: error where
  "InvalidDiscountingError = ValueError ''WACC must be greater than terminal growth g''"


text \<open>A float64 value: a finite number, an infinity or \<open>nan\<close>.\<close>

datatype npfloat = Fin real | PInf | NInf | NaN

definition float_ovf :: real where
  "float_ovf = 2 ^ 1024 - 2 ^ 970"

definition float_unf :: real where
  "float_unf = 1 / 2 ^ 1075"

text \<open>The float of an exact sum, product or quotient.\<close>

definition fl :: "real \<Rightarrow> npfloat" where
  "fl x = (if float_ovf \<le> x then PInf else if x \<le> - float_ovf then NInf else Fin x)"

fun np_add :: "npfloat \<Rightarrow> npfloat \<Rightarrow> npfloat" where
  "np_add (Fin a) (Fin b) = fl (a + b)"
| "np_add NaN _ = NaN"
| "np_add _ NaN = NaN"
| "np_add PInf NInf = NaN"
| "np_add NInf PInf = NaN"
| "np_add PInf _ = PInf"
| "np_add _ PInf = PInf"
| "np_add NInf _ = NInf"
| "np_add _ NInf = NInf"

fun np_neg :: "npfloat \<Rightarrow> npfloat" where
  "np_neg (Fin a) = Fin (- a)"
| "np_neg PInf = NInf"
| "np_neg NInf = PInf"
| "np_neg NaN = NaN"

definition np_sub :: "npfloat \<Rightarrow> npfloat \<Rightarrow> npfloat" where
  "np_sub a b = np_add a (np_neg b)"

fun np_mul :: "npfloat \<Rightarrow> npfloat \<Rightarrow> npfloat" where
  "np_mul (Fin a) (Fin b) = fl (a * b)"
| "np_mul NaN _ = NaN"
| "np_mul _ NaN = NaN"
| "np_mul (Fin a) PInf = (if a = 0 then NaN else if 0 < a then PInf else NInf)"
| "np_mul (Fin a) NInf = (if a = 0 then NaN else if 0 < a then NInf else PInf)"
| "np_mul PInf (Fin b) = (if b = 0 then NaN else if 0 < b then PInf else NInf)"
| "np_mul NInf (Fin b) = (if b = 0 then NaN else if 0 < b then NInf else PInf)"
| "np_mul PInf PInf = PInf"
| "np_mul NInf NInf = PInf"
| "np_mul PInf NInf = NInf"
| "np_mul NInf PInf = NInf"

text \<open>
  Division as numpy does it, and as Python does it on a divisor other than zero. A zero
  divisor is taken as \<open>+0.0\<close>.
\<close>

fun np_div :: "npfloat \<Rightarrow> npfloat \<Rightarrow> npfloat" where
  "np_div (Fin a) (Fin b) =
     (if b \<noteq> 0 then fl (a / b)
      else if 0 < a then PInf
      else if a < 0 then NInf
      else NaN)"
| "np_div NaN _ = NaN"
| "np_div _ NaN = NaN"
| "np_div (Fin a) PInf = Fin 0"
| "np_div (Fin a) NInf = Fin 0"
| "np_div PInf (Fin b) = (if b < 0 then NInf else PInf)"
| "np_div NInf (Fin b) = (if b < 0 then PInf else NInf)"
| "np_div PInf PInf = NaN"
| "np_div PInf NInf = NaN"
| "np_div NInf PInf = NaN"
| "np_div NInf NInf = NaN"

text \<open>
  \<open>b ** n\<close> for a finite base and an integer exponent \<open>n \<ge> 0\<close>. Inside the range both
  languages return \<open>pow_value\<close>; on overflow numpy returns an infinity and Python raises.
\<close>

definition pow_value :: "real \<Rightarrow> nat \<Rightarrow> real" where
  "pow_value b n = (if \<bar>b ^ n\<bar> \<le> float_unf then 0 else b ^ n)"

definition np_pow :: "real \<Rightarrow> nat \<Rightarrow> npfloat" where
  "np_pow b n =
     (if float_ovf \<le> \<bar>b ^ n\<bar> then (if b ^ n < 0 then NInf else PInf)
      else Fin (pow_value b n))"

definition py_pow :: "real \<Rightarrow> nat \<Rightarrow> error + real" where
  "py_pow b n =
     (if float_ovf \<le> \<bar>b ^ n\<bar> then Inl OverflowError
      else Inr (pow_value b n))"

text \<open>
  \<open>np.sum\<close> of a one-dimensional array. numpy adds in blocks rather than from left to
  right; in this model the order can show only when a partial sum overflows.
\<close>

definition np_sum :: "npfloat list \<Rightarrow> npfloat" where
  "np_sum xs = foldl np_add (Fin 0) xs"

text \<open>Division of a Python float by a finite Python float.\<close>

definition py_div :: "npfloat \<Rightarrow> real \<Rightarrow> error + npfloat" where
  "py_div a b = (if b = 0 then Inl ZeroDivisionError else Inr (np_div a (Fin b)))"

text \<open>\<open>xs[-1]\<close> on a list or a one-dimensional array.\<close>

definition py_last :: "'a list \<Rightarrow> error + 'a" where
  "py_last xs = (case xs of [] \<Rightarrow> Inl IndexError | _ \<Rightarrow> Inr (last xs))"

text \<open>A list comprehension whose element expression may raise: the first exception ends it.\<close>

fun mapE :: "('a \<Rightarrow> error + 'b) \<Rightarrow> 'a list \<Rightarrow> error + 'b list" where
  "mapE f [] = Inr []"
| "mapE f (x # xs) =
     (case f x of
        Inl e \<Rightarrow> Inl e
      | Inr y \<Rightarrow> (case mapE f xs of Inl e \<Rightarrow> Inl e | Inr ys \<Rightarrow> Inr (y # ys)))"

text \<open>
  A pandas DataFrame of float columns: the row labels and the columns in their order, each
  column with its name. A frame built from a dict has distinct column names.
\<close>

record dataframe =
  df_index :: "int list"
  df_columns :: "(string \<times> npfloat list) list"

section \<open>valuation.py\<close>

definition calc_free_cash_flow :: "dataframe \<Rightarrow> error + npfloat list" where
  "calc_free_cash_flow forecast_df =
     (case map_of (df_columns forecast_df) ''FCFF'' of
        None \<Rightarrow> Inl MissingColumnError
      | Some col \<Rightarrow> Inr col)"


definition discount_cash_flows :: "npfloat list \<Rightarrow> real \<Rightarrow> npfloat \<times> npfloat list" where
  "discount_cash_flows fcfs wacc =
     (let n = length fcfs;
          discount_factors = map (\<lambda>i. np_pow (1 + wacc) i) [1 ..< n + 1];
          pv = np_sum (map2 np_div fcfs discount_factors)
      in (pv, discount_factors))"

definition terminal_value_gordon :: "npfloat \<Rightarrow> real \<Rightarrow> real \<Rightarrow> error + npfloat" where
  "terminal_value_gordon fcff_last wacc g =
     (if wacc \<le> g then Inl InvalidDiscountingError
      else Inr (np_div (np_mul fcff_last (Fin (1 + g))) (fl (wacc - g))))"

definition compute_dcf_value :: "dataframe \<Rightarrow> real \<Rightarrow> real \<Rightarrow> error + npfloat" where
  "compute_dcf_value forecast_df wacc terminal_g =
     (case calc_free_cash_flow forecast_df of
        Inl e \<Rightarrow> Inl e
      | Inr fcfs \<Rightarrow>
          (case discount_cash_flows fcfs wacc of
             (pv_fcfs, discount_factors) \<Rightarrow>
               (case py_last fcfs of
                  Inl e \<Rightarrow> Inl e
                | Inr fcff_last \<Rightarrow>
                    (case terminal_value_gordon fcff_last wacc terminal_g of
                       Inl e \<Rightarrow> Inl e
                     | Inr tv \<Rightarrow>
                         (let n = length fcfs
                          in case py_pow (1 + wacc) n of
                               Inl e \<Rightarrow> Inl e
                             | Inr p \<Rightarrow>
                                 (case py_div tv p of
                                    Inl e \<Rightarrow> Inl e
                                  | Inr pv_tv \<Rightarrow> Inr (np_add pv_fcfs pv_tv)))))))"

section \<open>forecasting.py\<close>

text \<open>
  \<open>range(1, years + 1)\<close> is \<open>[1..years]\<close>, empty when \<open>years < 1\<close>; the exponent of
  \<open>**\<close> is then a positive integer. The comprehension stops at the first power that
  overflows.
\<close>

definition project_revenue :: "real \<Rightarrow> real \<Rightarrow> int \<Rightarrow> error + npfloat list" where
  "project_revenue last_value growth_rate years =
     mapE (\<lambda>i. case py_pow (1 + growth_rate) (nat i) of
                 Inl e \<Rightarrow> Inl e
               | Inr p \<Rightarrow> Inr (np_mul (Fin last_value) (Fin p)))
       [1 .. years]"

definition project_margin :: "real \<Rightarrow> real \<Rightarrow> real" where
  "project_margin base_margin delta = base_margin + delta"

text \<open>The column name \<open>\<Delta>WorkingCapital\<close>, the capital delta as its two UTF-8 bytes.\<close>

definition DeltaWorkingCapital :: string where
  "DeltaWorkingCapital = CHR 0xCE # CHR 0x94 # ''WorkingCapital''"

text \<open>
  The Series all share the default labels \<open>0..years-1\<close>, so Series arithmetic is
  elementwise; the frame gets the labels \<open>start_year + 1 ..\<close> when \<open>start_year\<close> is given.
\<close>

definition build_forecast ::
  "real \<Rightarrow> real \<Rightarrow> real \<Rightarrow> real \<Rightarrow> real \<Rightarrow> real \<Rightarrow> real \<Rightarrow> int \<Rightarrow> int option
     \<Rightarrow> error + dataframe" where
  "build_forecast last_revenue growth ebitda_margin capex_pct dep_pct wc_pct tax_rate years
       start_year =
     (case project_revenue last_revenue growth years of
        Inl e \<Rightarrow> Inl e
      | Inr series \<Rightarrow>
          (let rev = series;
               ebitda = map (\<lambda>r. np_mul r (Fin ebitda_margin)) rev;
               dep = map (\<lambda>r. np_mul r (Fin dep_pct)) rev;
               ebit = map2 np_sub ebitda dep;
               nopat = map (\<lambda>e. np_mul e (Fin (1 - tax_rate))) ebit;
               capex = map (\<lambda>r. np_mul r (Fin capex_pct)) rev;
               wc = map (\<lambda>r. np_mul r (Fin wc_pct)) rev;
               fcff = map2 np_sub (map2 np_sub (map2 np_add nopat dep) capex) wc;
               cols = [(''Revenue'', rev), (''EBITDA'', ebitda), (''Depreciation'', dep),
                       (''EBIT'', ebit), (''NOPAT'', nopat), (''Capex'', capex),
                       (DeltaWorkingCapital, wc), (''FCFF'', fcff)]
           in Inr (case start_year of
                     None \<Rightarrow> \<lparr>df_index = map int [0 ..< length rev], df_columns = cols\<rparr>
                   | Some sy \<Rightarrow>
                       \<lparr>df_index = map (\<lambda>i. sy + i) [1 .. years], df_columns = cols\<rparr>)))"

text \<open>The adjusted arguments are finite floats, written as the reals they stand for.\<close>

definition build_scenario_from_base ::
  "real \<Rightarrow> real \<Rightarrow> real \<Rightarrow> real \<Rightarrow> real \<Rightarrow> real \<Rightarrow> real \<Rightarrow> real \<Rightarrow> real \<Rightarrow> int \<Rightarrow> int option
     \<Rightarrow> error + dataframe" where
  "build_scenario_from_base last_revenue base_growth base_margin growth_mul margin_delta
       capex_mul dep_pct wc_pct tax_rate years start_year =
     (let g = base_growth * growth_mul;
          m = base_margin + margin_delta
      in build_forecast last_revenue g m (capex_mul * (6 / 100)) dep_pct wc_pct tax_rate years
           start_year)"

section \<open>simulation.py\<close>

text \<open>
  The generator of \<open>np.random.default_rng()\<close> is a source of standard normal draws:
  \<open>z k\<close> is the \<open>k\<close>-th draw it hands out, and the state threaded through the loop is
  the number of draws used so far. numpy's \<open>Generator.normal(loc, scale)\<close> rejects a
  \<open>scale\<close> whose sign bit is set with \<open>ValueError\<close>, so it rejects \<open>-0.0\<close> as well as
  the negative numbers, and otherwise returns \<open>loc + scale * standard_normal()\<close>. A
  standard deviation is therefore a finite float with \<open>-0.0\<close> kept apart from \<open>0.0\<close>.
  The sampled value \<open>loc + scale * draw\<close> is taken as that real: an overflow of the
  sampling itself is not modelled.
\<close>

type_synonym rng = "nat \<Rightarrow> real"

datatype scale = Scale real | MinusZero

definition rng_normal :: "rng \<Rightarrow> nat \<Rightarrow> real \<Rightarrow> scale \<Rightarrow> error + real \<times> nat" where
  "rng_normal z k loc sc =
     (case sc of
        MinusZero \<Rightarrow> Inl (ValueError ''scale < 0'')
      | Scale s \<Rightarrow>
          if s < 0 then Inl (ValueError ''scale < 0'')
          else Inr (loc + s * z k, Suc k))"

text \<open>\<open>d[key]\<close> and \<open>d.get(key, default)\<close> on a dict.\<close>

definition py_getitem :: "(string \<rightharpoonup> 'v) \<Rightarrow> string \<Rightarrow> error + 'v" where
  "py_getitem d key = (case d key of None \<Rightarrow> Inl (KeyError key) | Some v \<Rightarrow> Inr v)"

definition py_get :: "(string \<rightharpoonup> 'v) \<Rightarrow> string \<Rightarrow> 'v \<Rightarrow> 'v" where
  "py_get d key dflt = (case d key of None \<Rightarrow> dflt | Some v \<Rightarrow> v)"

text \<open>Sequencing of steps that may raise: the first exception ends the computation.\<close>

definition bindE :: "error + 'a \<Rightarrow> ('a \<Rightarrow> error + 'b) \<Rightarrow> error + 'b" where
  "bindE m f = (case m of Inl e \<Rightarrow> Inl e | Inr x \<Rightarrow> f x)"

text \<open>
  One operational draw, \<open>rng.normal(base_inputs[key], sigma_inputs.get(key, 0))\<close>: the
  arguments are evaluated first, so a missing base field raises \<open>KeyError\<close> before the
  generator is called.
\<close>

definition sample_field ::
  "(string \<rightharpoonup> real) \<Rightarrow> (string \<rightharpoonup> scale) \<Rightarrow> rng \<Rightarrow> string \<Rightarrow> nat \<Rightarrow> error + real \<times> nat" where
  "sample_field base_inputs sigma_inputs z key k =
     bindE (py_getitem base_inputs key)
       (\<lambda>loc. rng_normal z k loc (py_get sigma_inputs key (Scale 0)))"

text \<open>
  The local variables of the loop body after the safety limits: the values handed to
  \<open>build_forecast\<close> and \<open>compute_dcf_value\<close>.
\<close>

record trial_inputs =
  t_growth :: real
  t_ebitda_margin :: real
  t_capex_pct :: real
  t_dep_pct :: real
  t_wc_pct :: real
  t_tax_rate :: real
  t_wacc :: real
  t_terminal_g :: real

text \<open>Sampling and clamping of one trial (the loop body down to the safety limits).\<close>

definition mc_sample ::
  "(string \<rightharpoonup> real) \<Rightarrow> (string \<rightharpoonup> scale) \<Rightarrow> real \<Rightarrow> scale \<Rightarrow> real \<Rightarrow> scale \<Rightarrow> rng \<Rightarrow> nat
     \<Rightarrow> error + trial_inputs \<times> nat" where
  "mc_sample base_inputs sigma_inputs wacc_base wacc_sigma terminal_g_base terminal_g_sigma
       z k0 =
     bindE (sample_field base_inputs sigma_inputs z ''growth'' k0) (\<lambda>(growth, k1).
     bindE (sample_field base_inputs sigma_inputs z ''ebitda_margin'' k1) (\<lambda>(ebitda_margin, k2).
     bindE (sample_field base_inputs sigma_inputs z ''capex_pct'' k2) (\<lambda>(capex_pct, k3).
     bindE (sample_field base_inputs sigma_inputs z ''dep_pct'' k3) (\<lambda>(dep_pct, k4).
     bindE (sample_field base_inputs sigma_inputs z ''wc_pct'' k4) (\<lambda>(wc_pct, k5).
     bindE (sample_field base_inputs sigma_inputs z ''tax_rate'' k5) (\<lambda>(tax_rate, k6).
     bindE (rng_normal z k6 wacc_base wacc_sigma) (\<lambda>(w, k7).
     bindE (rng_normal z k7 terminal_g_base terminal_g_sigma) (\<lambda>(terminal_g, k8).
       Inr (\<lparr>t_growth = growth,
             t_ebitda_margin = max (- (1 / 2)) ebitda_margin,
             t_capex_pct = max 0 capex_pct,
             t_dep_pct = max 0 dep_pct,
             t_wc_pct = max 0 wc_pct,
             t_tax_rate = min (max 0 tax_rate) 1,
             t_wacc = max (1 / 1000) w,
             t_terminal_g = terminal_g\<rparr>, k8)))))))))"

text \<open>
  The \<open>try\<close> block: \<open>except Exception\<close> turns every exception of the valuation into
  \<open>nan\<close>.
\<close>

definition mc_value :: "dataframe \<Rightarrow> trial_inputs \<Rightarrow> npfloat" where
  "mc_value forecast_df t =
     (case compute_dcf_value forecast_df (t_wacc t) (t_terminal_g t) of
        Inl e \<Rightarrow> NaN
      | Inr ev \<Rightarrow> ev)"

text \<open>
  One pass of the loop body. The forecast is built before the \<open>try\<close>, so an exception of
  \<open>build_forecast\<close> ends the trial and with it the run.
\<close>

definition mc_trial ::
  "(string \<rightharpoonup> real) \<Rightarrow> (string \<rightharpoonup> scale) \<Rightarrow> int \<Rightarrow> int option \<Rightarrow> real \<Rightarrow> scale \<Rightarrow> real
     \<Rightarrow> scale \<Rightarrow> rng \<Rightarrow> nat \<Rightarrow> error + npfloat \<times> nat" where
  "mc_trial base_inputs sigma_inputs years start_year wacc_base wacc_sigma terminal_g_base
       terminal_g_sigma z k =
     bindE (mc_sample base_inputs sigma_inputs wacc_base wacc_sigma terminal_g_base
              terminal_g_sigma z k) (\<lambda>(t, k').
     bindE (py_getitem base_inputs ''last_revenue'') (\<lambda>last_revenue.
     bindE (build_forecast last_revenue (t_growth t) (t_ebitda_margin t) (t_capex_pct t)
              (t_dep_pct t) (t_wc_pct t) (t_tax_rate t) years start_year) (\<lambda>forecast_df.
       Inr (mc_value forecast_df t, k'))))"



section \<open>Reading a value distribution\<close>





section \<open>Ranges and configurations\<close>


definition pow_exact :: "real \<Rightarrow> nat \<Rightarrow> bool" where
  "pow_exact b n = (\<bar>b ^ n\<bar> < float_ovf \<and> (b ^ n = 0 \<or> float_unf < \<bar>b ^ n\<bar>))"





text \<open>
  Example inputs: a base case as a \<open>base_inputs\<close> dict, a dict of standard
  deviations, an empty one, and a generator whose every draw is the same number.
\<close>

definition example_base :: "string \<rightharpoonup> real" where
  "example_base =
     map_of [(''last_revenue'', 28000), (''growth'', 8 / 100), (''ebitda_margin'', 34 / 100),
             (''capex_pct'', 6 / 100), (''dep_pct'', 5 / 100), (''wc_pct'', 1 / 100),
             (''tax_rate'', 21 / 100)]"

definition example_sigma :: "string \<rightharpoonup> scale" where
  "example_sigma =
     map_of [(''growth'', Scale (2 / 100)), (''ebitda_margin'', Scale (3 / 100)),
             (''capex_pct'', Scale (1 / 100)), (''dep_pct'', Scale (1 / 100)),
             (''wc_pct'', Scale (1 / 100)), (''tax_rate'', Scale (2 / 100))]"

definition no_sigma :: "string \<rightharpoonup> scale" where
  "no_sigma = map_of []"

definition const_draws :: "real \<Rightarrow> rng" where
  "const_draws c k = c"


section \<open>Helper lemmas\<close>






lemma pow_value_exact: "pow_exact b n \<Longrightarrow> pow_value b n = b ^ n"
  by (auto simp: pow_exact_def pow_value_def)

lemma pow_exact_no_overflow: "pow_exact b n \<Longrightarrow> \<not> float_ovf \<le> \<bar>b ^ n\<bar>"
  unfolding pow_exact_def by linarith

lemma py_pow_exact: "pow_exact b n \<Longrightarrow> py_pow b n = Inr (b ^ n)"
  by (simp only: py_pow_def pow_value_exact pow_exact_no_overflow if_False)


lemma pow_exact_small:
  assumes "1 / 2 ^ 64 \<le> \<bar>b ^ n\<bar>" and "\<bar>b ^ n\<bar> \<le> 2 ^ 64"
  shows "pow_exact b n"
proof -
  have "float_unf < 1 / 2 ^ 64"
    by (simp add: float_unf_def)
  moreover have "(2 :: real) ^ 64 < float_ovf"
    by (simp add: float_ovf_def)
  ultimately show ?thesis
    using assms by (simp add: pow_exact_def)
qed






lemma py_last_nonempty: "xs \<noteq> [] \<Longrightarrow> py_last xs = Inr (last xs)"
  by (cases xs) (simp_all add: py_last_def)

lemma compute_dcf_value_cases:
  assumes "map_of (df_columns forecast_df) ''FCFF'' = Some fcff"
  shows "compute_dcf_value forecast_df wacc terminal_g =
     (if fcff = [] then Inl IndexError
      else if wacc \<le> terminal_g then Inl InvalidDiscountingError
      else if float_ovf \<le> \<bar>(1 + wacc) ^ length fcff\<bar> then Inl OverflowError
      else if pow_value (1 + wacc) (length fcff) = 0 then Inl ZeroDivisionError
      else Inr (np_add (fst (discount_cash_flows fcff wacc))
                  (np_div (np_div (np_mul (last fcff) (Fin (1 + terminal_g)))
                             (fl (wacc - terminal_g)))
                     (Fin (pow_value (1 + wacc) (length fcff))))))"
proof (cases "fcff = []")
  case True
  then show ?thesis
    using assms
    by (simp add: compute_dcf_value_def calc_free_cash_flow_def py_last_def split: prod.splits)
next
  case False
  then show ?thesis
    using assms
    by (simp add: compute_dcf_value_def calc_free_cash_flow_def py_last_nonempty
        terminal_value_gordon_def py_pow_def py_div_def split: prod.splits)
qed

text \<open>Unfolding sets for evaluating the model on concrete inputs.\<close>

lemmas float_eval =
  fl_def float_ovf_def float_unf_def py_pow_def pow_value_def np_pow_def np_sub_def py_div_def
  np_sum_def py_last_def

lemmas valuation_eval =
  compute_dcf_value_def calc_free_cash_flow_def discount_cash_flows_def
  terminal_value_gordon_def InvalidDiscountingError_def

lemmas forecast_eval =
  build_forecast_def project_revenue_def DeltaWorkingCapital_def upto.simps Let_def

lemmas sample_eval =
  mc_sample_def sample_field_def bindE_def py_getitem_def py_get_def rng_normal_def
  example_base_def example_sigma_def no_sigma_def const_draws_def

section \<open>The valuation engine\<close>

text \<open>
  C3. On a table whose FCFF column has at least one row, \<open>compute_dcf_value\<close> raises the
  invalid-discounting error exactly when \<open>wacc \<le> terminal_g\<close>; when \<open>wacc > terminal_g\<close>
  it raises no \<open>ValueError\<close> at all, and when it raises the error no enterprise value is
  returned.
\<close>

theorem compute_dcf_value_raises_iff:
  assumes "map_of (df_columns forecast_df) ''FCFF'' = Some fcff"
    and "fcff \<noteq> []"
  shows "(compute_dcf_value forecast_df wacc terminal_g = Inl InvalidDiscountingError
            \<longleftrightarrow> wacc \<le> terminal_g)
       \<and> (terminal_g < wacc \<longrightarrow>
            (\<forall>msg. compute_dcf_value forecast_df wacc terminal_g \<noteq> Inl (ValueError msg)))
       \<and> (wacc \<le> terminal_g \<longrightarrow>
            (\<forall>ev. compute_dcf_value forecast_df wacc terminal_g \<noteq> Inr ev))"
  using assms
  by (simp add: compute_dcf_value_cases InvalidDiscountingError_def)

theorem compute_dcf_value_raises_iff_witness:
  "compute_dcf_value \<lparr>df_index = [0], df_columns = [(''FCFF'', [Fin 5])]\<rparr> (1 / 50) (3 / 100)
     = Inl InvalidDiscountingError
   \<and> compute_dcf_value \<lparr>df_index = [0], df_columns = [(''FCFF'', [Fin 5])]\<rparr> (3 / 100) (1 / 50)
     \<noteq> Inl InvalidDiscountingError"
  using compute_dcf_value_raises_iff
    [of "\<lparr>df_index = [0], df_columns = [(''FCFF'', [Fin 5])]\<rparr>" "[Fin 5]" "1 / 50" "3 / 100"]
    compute_dcf_value_raises_iff
    [of "\<lparr>df_index = [0], df_columns = [(''FCFF'', [Fin 5])]\<rparr>" "[Fin 5]" "3 / 100" "1 / 50"]
  by simp

text \<open>
  C10. \<open>compute_dcf_value\<close> reads the last element of the FCFF column: on a table that
  has the column, it fails with the out-of-range \<open>IndexError\<close> exactly when the column
  has no rows, whatever the discounting parameters; that error is neither the
  missing-column nor the invalid-discounting error.
\<close>

theorem compute_dcf_value_empty_table:
  assumes "map_of (df_columns forecast_df) ''FCFF'' = Some fcff"
  shows "(compute_dcf_value forecast_df wacc terminal_g = Inl IndexError \<longleftrightarrow> length fcff = 0)
       \<and> IndexError \<noteq> MissingColumnError \<and> IndexError \<noteq> InvalidDiscountingError"
  using assms
  by (simp add: compute_dcf_value_cases InvalidDiscountingError_def MissingColumnError_def)

theorem compute_dcf_value_empty_table_witness:
  "compute_dcf_value \<lparr>df_index = [], df_columns = [(''FCFF'', [])]\<rparr> (3 / 100) (1 / 50)
     = Inl IndexError
   \<and> compute_dcf_value \<lparr>df_index = [0], df_columns = [(''FCFF'', [Fin 5])]\<rparr> (3 / 100) (1 / 50)
     \<noteq> Inl IndexError"
  using compute_dcf_value_empty_table
    [of "\<lparr>df_index = [], df_columns = [(''FCFF'', [])]\<rparr>" "[]" "3 / 100" "1 / 50"]
    compute_dcf_value_empty_table
    [of "\<lparr>df_index = [0], df_columns = [(''FCFF'', [Fin 5])]\<rparr>" "[Fin 5]" "3 / 100" "1 / 50"]
  by simp



















section \<open>The WACC calculator\<close>



section \<open>The forecast builder\<close>














text \<open>
  C8. \<open>build_scenario_from_base\<close> returns exactly the table \<open>build_forecast\<close> returns
  for growth \<open>base_growth * growth_mul\<close>, margin \<open>base_margin + margin_delta\<close> and capex
  ratio \<open>capex_mul * 0.06\<close>, with \<open>dep_pct\<close>, \<open>wc_pct\<close>, \<open>tax_rate\<close>, \<open>years\<close> and
  \<open>start_year\<close> passed through; no capex ratio of the base scenario enters.
\<close>

theorem build_scenario_from_base_refines:
  "build_scenario_from_base last_revenue base_growth base_margin growth_mul margin_delta
       capex_mul dep_pct wc_pct tax_rate years start_year
     = build_forecast last_revenue (base_growth * growth_mul) (base_margin + margin_delta)
         (capex_mul * (6 / 100)) dep_pct wc_pct tax_rate years start_year"
  by (simp add: build_scenario_from_base_def)

section \<open>The Monte Carlo driver\<close>

lemma bindE_Inr: "bindE (Inr x) f = f x"
  by (simp add: bindE_def)




lemma mc_sample_bounds:
  assumes "mc_sample base_inputs sigma_inputs wacc_base wacc_sigma terminal_g_base
             terminal_g_sigma z k = Inr (t, k')"
  shows "- (1 / 2) \<le> t_ebitda_margin t \<and> 0 \<le> t_capex_pct t \<and> 0 \<le> t_dep_pct t
         \<and> 0 \<le> t_wc_pct t \<and> 0 \<le> t_tax_rate t \<and> t_tax_rate t \<le> 1 \<and> 1 / 1000 \<le> t_wacc t"
  using assms unfolding mc_sample_def
  by (auto simp: bindE_def split: sum.splits prod.splits)

lemma mc_trial_Inr:
  assumes "mc_trial base_inputs sigma_inputs years start_year wacc_base wacc_sigma
             terminal_g_base terminal_g_sigma z k = Inr (ev, k')"
  shows "\<exists>t last_revenue forecast_df.
           mc_sample base_inputs sigma_inputs wacc_base wacc_sigma terminal_g_base
             terminal_g_sigma z k = Inr (t, k')
         \<and> base_inputs ''last_revenue'' = Some last_revenue
         \<and> build_forecast last_revenue (t_growth t) (t_ebitda_margin t) (t_capex_pct t)
             (t_dep_pct t) (t_wc_pct t) (t_tax_rate t) years start_year = Inr forecast_df
         \<and> ev = mc_value forecast_df t"
  using assms unfolding mc_trial_def
  by (auto simp: bindE_def py_getitem_def split: sum.splits prod.splits option.splits)




text \<open>
  C5. Whatever the draws, the inputs a trial hands to \<open>build_forecast\<close> and
  \<open>compute_dcf_value\<close> are the clamped ones: \<open>ebitda_margin \<ge> -0.5\<close>,
  \<open>capex_pct \<ge> 0\<close>, \<open>dep_pct \<ge> 0\<close>, \<open>wc_pct \<ge> 0\<close>, \<open>0 \<le> tax_rate \<le> 1\<close> and
  \<open>wacc \<ge> 0.001\<close>.
\<close>

theorem mc_trial_clamped:
  assumes "mc_trial base_inputs sigma_inputs years start_year wacc_base wacc_sigma
             terminal_g_base terminal_g_sigma z k = Inr (ev, k')"
  shows "\<exists>t last_revenue forecast_df.
           mc_sample base_inputs sigma_inputs wacc_base wacc_sigma terminal_g_base
             terminal_g_sigma z k = Inr (t, k')
         \<and> base_inputs ''last_revenue'' = Some last_revenue
         \<and> build_forecast last_revenue (t_growth t) (t_ebitda_margin t) (t_capex_pct t)
             (t_dep_pct t) (t_wc_pct t) (t_tax_rate t) years start_year = Inr forecast_df
         \<and> ev = (case compute_dcf_value forecast_df (t_wacc t) (t_terminal_g t) of
                    Inl e \<Rightarrow> NaN
                  | Inr v \<Rightarrow> v)
         \<and> - (1 / 2) \<le> t_ebitda_margin t \<and> 0 \<le> t_capex_pct t \<and> 0 \<le> t_dep_pct t
         \<and> 0 \<le> t_wc_pct t \<and> 0 \<le> t_tax_rate t \<and> t_tax_rate t \<le> 1 \<and> 1 / 1000 \<le> t_wacc t"
proof -
  from mc_trial_Inr [OF assms] obtain t last_revenue forecast_df where
    s: "mc_sample base_inputs sigma_inputs wacc_base wacc_sigma terminal_g_base
          terminal_g_sigma z k = Inr (t, k')"
    and l: "base_inputs ''last_revenue'' = Some last_revenue"
    and f: "build_forecast last_revenue (t_growth t) (t_ebitda_margin t) (t_capex_pct t)
             (t_dep_pct t) (t_wc_pct t) (t_tax_rate t) years start_year = Inr forecast_df"
    and e: "ev = mc_value forecast_df t"
    by blast
  from mc_sample_bounds [OF s] s l f e show ?thesis
    unfolding mc_value_def by blast
qed


theorem mc_trial_clamped_witness:
  "mc_trial example_base example_sigma 1 None (75 / 1000) (Scale (15 / 1000)) (25 / 1000)
       (Scale (5 / 1000)) (const_draws (- 100)) 0 = Inr (Fin (460000 / 17), 8)
   \<and> mc_sample example_base example_sigma (75 / 1000) (Scale (15 / 1000)) (25 / 1000)
       (Scale (5 / 1000)) (const_draws (- 100)) 0
     = Inr (\<lparr>t_growth = - (48 / 25), t_ebitda_margin = - (1 / 2), t_capex_pct = 0,
             t_dep_pct = 0, t_wc_pct = 0, t_tax_rate = 0, t_wacc = 1 / 1000,
             t_terminal_g = - (19 / 40)\<rparr>, 8)"
proof -
  let ?t = "\<lparr>t_growth = - (48 / 25), t_ebitda_margin = - (1 / 2), t_capex_pct = 0,
             t_dep_pct = 0, t_wc_pct = 0, t_tax_rate = 0, t_wacc = 1 / 1000,
             t_terminal_g = - (19 / 40)\<rparr>"
  let ?df = "\<lparr>df_index = [0],
        df_columns =
          [(''Revenue'', [Fin (- 25760)]), (''EBITDA'', [Fin 12880]),
           (''Depreciation'', [Fin 0]), (''EBIT'', [Fin 12880]),
           (''NOPAT'', [Fin 12880]), (''Capex'', [Fin 0]),
           (DeltaWorkingCapital, [Fin 0]), (''FCFF'', [Fin 12880])]\<rparr>"
  have s: "mc_sample example_base example_sigma (75 / 1000) (Scale (15 / 1000)) (25 / 1000)
       (Scale (5 / 1000)) (const_draws (- 100)) 0 = Inr (?t, 8)"
    by (simp add: sample_eval)
  have l: "py_getitem example_base ''last_revenue'' = Inr 28000"
    by (simp add: py_getitem_def example_base_def)
  have bf: "build_forecast 28000 (t_growth ?t) (t_ebitda_margin ?t) (t_capex_pct ?t)
              (t_dep_pct ?t) (t_wc_pct ?t) (t_tax_rate ?t) 1 None = Inr ?df"
    by (simp add: forecast_eval float_eval)
  have v: "mc_value ?df ?t = Fin (460000 / 17)"
    by (simp add: mc_value_def valuation_eval float_eval DeltaWorkingCapital_def)
  have h: "mc_trial example_base example_sigma 1 None (75 / 1000) (Scale (15 / 1000))
       (25 / 1000) (Scale (5 / 1000)) (const_draws (- 100)) 0 = Inr (Fin (460000 / 17), 8)"
    by (simp only: mc_trial_def s l bindE_Inr prod.case bf v)
  from mc_trial_clamped [OF h] h s show ?thesis by simp
qed











end
